theory Spec2Isabelle
  imports Main
begin

section \<open>JavaScript values\<close>

text \<open>
  Values that travel through the controller: request bodies, validated data, thrown
  error objects and response bodies are JSON-like values. An object is a list of
  properties in insertion order.
\<close>

datatype json =
    JNull
  | JBool bool
  | JNum int
  | JStr string
  | JArr "json list"
  | JObj "(string \<times> json) list"

text \<open>A JavaScript \<open>throw\<close> may carry any value.\<close>

type_synonym exn = json

text \<open>
  A property read that may yield \<open>undefined\<close> (the property or the whole object is
  missing), \<open>null\<close> (a nullable column) or a value. Equality of this datatype is the
  strict comparison \<open>===\<close> on such reads: \<open>undefined\<close> and \<open>null\<close> differ.
\<close>

datatype 'a optional = Undefined | Null | Val (the_Val: 'a)

text \<open>\<open>!x\<close> is \<open>\<not> truthy x\<close>: \<open>undefined\<close>, \<open>null\<close> and the number 0 are falsy.\<close>

fun truthy :: "int optional \<Rightarrow> bool" where
  "truthy Undefined = False"
| "truthy Null = False"
| "truthy (Val n) = (n \<noteq> 0)"

text \<open>A parameter with a default value takes the default when the argument is omitted.\<close>

fun default_arg :: "'a \<Rightarrow> 'a option \<Rightarrow> 'a" where
  "default_arg d None = d"
| "default_arg d (Some v) = v"

text \<open>Property lookup and the property names of an object.\<close>

fun keys :: "json \<Rightarrow> string list" where
  "keys (JObj ps) = map fst ps"
| "keys _ = []"

fun get_prop :: "string \<Rightarrow> json \<Rightarrow> json option" where
  "get_prop k (JObj ps) = map_of ps k"
| "get_prop k _ = None"

text \<open>
  \<open>{...data, k: v}\<close>: the copy of \<open>data\<close> with property \<open>k\<close> set; an existing
  property keeps its position, a new one goes last.
\<close>

fun set_prop :: "string \<Rightarrow> json \<Rightarrow> (string \<times> json) list \<Rightarrow> (string \<times> json) list" where
  "set_prop k v [] = [(k, v)]"
| "set_prop k v ((k', v') # ps) =
     (if k' = k then (k, v) # ps else (k', v') # set_prop k v ps)"

section \<open>The Express response object\<close>

text \<open>
  \<open>res.status(code)\<close> stores the HTTP status code, \<open>res.json(body)\<close> sends the body.
  Both return the response object, here the updated record.
\<close>

record Response =
  statusCode :: int
  sent :: "json option"

definition res_status :: "Response \<Rightarrow> int \<Rightarrow> Response" where
  "res_status res code = res\<lparr>statusCode := code\<rparr>"

definition res_json :: "Response \<Rightarrow> json \<Rightarrow> Response" where
  "res_json res b = res\<lparr>sent := Some b\<rparr>"

section \<open>utlis/responses.ts\<close>

text \<open>
  \<open>send(res, message = "", status = 200)\<close> declares three parameters. The controller
  calls it with a fourth argument (the resource); JavaScript evaluates and then ignores
  an argument beyond the declared parameters, so the model takes it as \<open>extra\<close> and
  does not use it.
\<close>

definition send :: "Response \<Rightarrow> string option \<Rightarrow> int option \<Rightarrow> 'x \<Rightarrow> Response" where
  "send res message status extra =
     (let message = default_arg '''' message; status = default_arg 200 status
      in res_json (res_status res status)
           (JObj [(''message'', JStr message), (''status'', JNum status)]))"

definition unauthorized :: "Response \<Rightarrow> string option \<Rightarrow> Response" where
  "unauthorized res message =
     (let message = default_arg ''Unauthorized.'' message
      in res_json (res_status res 401)
           (JObj [(''message'', JStr message), (''status'', JNum 401)]))"

definition notFound :: "Response \<Rightarrow> string option \<Rightarrow> Response" where
  "notFound res message =
     (let message = default_arg ''Error 404 - Not Found.'' message
      in res_json (res_status res 404)
           (JObj [(''message'', JStr message), (''status'', JNum 404)]))"

definition badRequest :: "Response \<Rightarrow> string option \<Rightarrow> Response" where
  "badRequest res message =
     (let message = default_arg ''Something went wrong.'' message
      in res_json (res_status res 500)
           (JObj [(''message'', JStr message), (''status'', JNum 500)]))"

definition conflict :: "Response \<Rightarrow> string option \<Rightarrow> Response" where
  "conflict res message =
     (let message = default_arg ''Something went wrong.'' message
      in res_json (res_status res 409)
           (JObj [(''message'', JStr message), (''status'', JNum 409)]))"

section \<open>Entities read by the controller\<close>

text \<open>
  The Prisma schema is not part of the sources; the records hold the columns the
  controller reads. Modelled from the spec: a user has a role (Admin or Student) and a
  year, a module belongs to a year, a subject to a module, a lecture to a subject, a link
  to a lecture. The year columns are \<open>optional\<close> values so that a missing or null
  year is representable.
\<close>

datatype UserRole = Admin | Student

record User =
  user_id :: int
  role :: UserRole
  user_yearId :: "int optional"

record Module =
  module_id :: int
  module_yearId :: "int optional"

record Subject =
  subject_id :: int
  moduleId :: int

text \<open>A lecture row as \<open>findUnique\<close> returns it with \<open>include: { subject: true }\<close>.\<close>

record LectureData =
  lecture_id :: int
  subject :: Subject

record LectureLink =
  link_id :: int
  link_lectureId :: int

text \<open>\<open>user?.yearId\<close> and \<open>module?.yearId\<close>: \<open>undefined\<close> when the object is missing.\<close>

fun user_opt_yearId :: "User option \<Rightarrow> int optional" where
  "user_opt_yearId None = Undefined"
| "user_opt_yearId (Some u) = user_yearId u"

fun module_opt_yearId :: "Module option \<Rightarrow> int optional" where
  "module_opt_yearId None = Undefined"
| "module_opt_yearId (Some m) = module_yearId m"

section \<open>Collaborators of the controller\<close>

text \<open>The result of a schema's \<open>safeParse\<close>: \<open>{success: true, data}\<close> or a failure.\<close>

datatype SafeParseReturn = Success "(string \<times> json) list" | Failure json

text \<open>An Express request: \<open>req.body\<close>, and the rest of it (route parameters, session).\<close>

record 'c Request =
  meta :: 'c
  body :: json

text \<open>
  The functions the controller imports and that are not part of the sources are
  parameters: \<open>AuthController.user\<close>, \<open>parameterExists\<close>, the Prisma client \<open>db\<close>, the
  schemas, \<open>extractErrors\<close>, \<open>validationErrors\<close> and \<open>currentDate\<close>. The store is a
  state of type \<open>'db\<close>. A call that may throw returns \<open>Inl\<close> of the thrown value; a
  read returns its result, a write its result and the new store. \<open>safeParse\<close> reports
  failure in its result instead of throwing. \<open>AuthController.user\<close> and
  \<open>parameterExists\<close> are also handed \<open>res\<close>; they are taken to return a value without
  sending a response. The text that a template literal puts in place of a number is the
  runtime's conversion of numbers to strings; it is the parameter \<open>template_number\<close>.
\<close>

record ('c, 'db) env =
  AuthController_user :: "'c Request \<Rightarrow> 'db \<Rightarrow> exn + User option"
  parameterExists :: "'c Request \<Rightarrow> string \<Rightarrow> exn + int optional"
  lectureData_findUnique :: "'db \<Rightarrow> int \<Rightarrow> exn + LectureData option"
  lectureData_update :: "'db \<Rightarrow> int \<Rightarrow> (string \<times> json) list \<Rightarrow> exn + LectureData \<times> 'db"
  lectureData_delete :: "'db \<Rightarrow> int \<Rightarrow> exn + LectureData \<times> 'db"
  module_findUnique :: "'db \<Rightarrow> int \<Rightarrow> exn + Module option"
  lectureLinks_findUnique :: "'db \<Rightarrow> int \<Rightarrow> exn + LectureLink option"
  lectureLinks_findMany :: "'db \<Rightarrow> int \<Rightarrow> exn + LectureLink list"
  lectureLinks_create :: "'db \<Rightarrow> (string \<times> json) list \<Rightarrow> exn + LectureLink \<times> 'db"
  lectureLinks_update :: "'db \<Rightarrow> int \<Rightarrow> (string \<times> json) list \<Rightarrow> exn + LectureLink \<times> 'db"
  lectureLinks_delete :: "'db \<Rightarrow> int \<Rightarrow> exn + LectureLink \<times> 'db"
  subjectLecture_update_safeParse :: "json \<Rightarrow> SafeParseReturn"
  linkSchema_create_safeParse :: "json \<Rightarrow> SafeParseReturn"
  linkSchema_update_safeParse :: "json \<Rightarrow> SafeParseReturn"
  extractErrors :: "SafeParseReturn \<Rightarrow> json"
  validationErrors :: "Response \<Rightarrow> json \<Rightarrow> Response"
  currentDate :: json
  template_number :: "int \<Rightarrow> string"

section \<open>Control flow: sequencing, try and catch\<close>

text \<open>A statement that throws ends the \<open>try\<close> block with the thrown value.\<close>

definition andThen :: "exn + 'a \<Rightarrow> ('a \<Rightarrow> exn + 'b) \<Rightarrow> exn + 'b" where
  "andThen r k = (case r of Inl e \<Rightarrow> Inl e | Inr v \<Rightarrow> k v)"

definition try_catch :: "exn + 'a \<Rightarrow> (exn \<Rightarrow> exn + 'a) \<Rightarrow> exn + 'a" where
  "try_catch block handler = (case block of Inl e \<Rightarrow> handler e | Inr v \<Rightarrow> Inr v)"

section \<open>LectureController\<close>

text \<open>
  Every handler has the shape \<open>try { ... } catch (errorObject) { ... }\<close> with the same
  catch block. A handler takes the request, the response object and the store, and
  returns the response object and the store, or \<open>Inl\<close> if a value is thrown out of it.
  In each \<open>try\<close> block the only call that changes the store is the last call that can
  throw, so the catch block runs on the store the handler started with.
\<close>

definition catch_block :: "Response \<Rightarrow> exn \<Rightarrow> Response" where
  "catch_block res errorObject =
     res_json (res_status res 500)
       (JObj [(''errorObject'', errorObject),
              (''message'', JStr ''Error - Something Went Wrong.''),
              (''status'', JNum 500)])"

definition get_try ::
  "('c, 'db) env \<Rightarrow> 'c Request \<Rightarrow> Response \<Rightarrow> 'db \<Rightarrow> exn + Response \<times> 'db" where
  "get_try env req res db =
     andThen (AuthController_user env req db) (\<lambda>user.
     andThen (parameterExists env req ''lectureId'') (\<lambda>lectureId.
     if \<not> truthy lectureId then Inr (badRequest res (Some ''Invalid lectureId''), db) else
     andThen (lectureData_findUnique env db (the_Val lectureId)) (\<lambda>lecture.
     case lecture of
       None \<Rightarrow> Inr (notFound res (Some ''Lecture doesn't exist.''), db)
     | Some l \<Rightarrow>
     andThen (module_findUnique env db (moduleId (subject l))) (\<lambda>module.
     if user_opt_yearId user \<noteq> module_opt_yearId module
     then Inr (unauthorized res (Some ''Unauthorized''), db)
     else Inr (send res (Some (''lectureId ['' @ template_number env (the_Val lectureId) @ ''] - Data''))
                 (Some 200) l, db)))))"

definition get ::
  "('c, 'db) env \<Rightarrow> 'c Request \<Rightarrow> Response \<Rightarrow> 'db \<Rightarrow> exn + Response \<times> 'db" where
  "get env req res db =
     try_catch (get_try env req res db) (\<lambda>errorObject. Inr (catch_block res errorObject, db))"

definition updateLecture_try ::
  "('c, 'db) env \<Rightarrow> 'c Request \<Rightarrow> Response \<Rightarrow> 'db \<Rightarrow> exn + Response \<times> 'db" where
  "updateLecture_try env req res db =
     andThen (AuthController_user env req db) (\<lambda>user.
     if (case user of None \<Rightarrow> True | Some u \<Rightarrow> role u \<noteq> Admin)
     then Inr (unauthorized res (Some ''Unauthorized cannot update a lecture.''), db) else
     andThen (parameterExists env req ''lectureId'') (\<lambda>lectureId.
     if \<not> truthy lectureId then Inr (badRequest res (Some ''Invalid lectureId''), db) else
     andThen (lectureData_findUnique env db (the_Val lectureId)) (\<lambda>lecture.
     case lecture of
       None \<Rightarrow> Inr (notFound res (Some ''Lecture doesn't exist.''), db)
     | Some l \<Rightarrow>
     andThen (module_findUnique env db (moduleId (subject l))) (\<lambda>module.
     if user_opt_yearId user \<noteq> module_opt_yearId module
     then Inr (unauthorized res (Some ''Unauthorized''), db) else
     (case subjectLecture_update_safeParse env (body req) of
       Failure err \<Rightarrow> Inr (validationErrors env res (extractErrors env (Failure err)), db)
     | Success data \<Rightarrow>
     andThen (lectureData_update env db (the_Val lectureId) data) (\<lambda>(updatedLecture, db').
     Inr (send res (Some ''Lecture has been updated'') (Some 200) updatedLecture, db')))))))"

definition updateLecture ::
  "('c, 'db) env \<Rightarrow> 'c Request \<Rightarrow> Response \<Rightarrow> 'db \<Rightarrow> exn + Response \<times> 'db" where
  "updateLecture env req res db =
     try_catch (updateLecture_try env req res db)
       (\<lambda>errorObject. Inr (catch_block res errorObject, db))"

definition deleteLecture_try ::
  "('c, 'db) env \<Rightarrow> 'c Request \<Rightarrow> Response \<Rightarrow> 'db \<Rightarrow> exn + Response \<times> 'db" where
  "deleteLecture_try env req res db =
     andThen (AuthController_user env req db) (\<lambda>user.
     if (case user of None \<Rightarrow> True | Some u \<Rightarrow> role u \<noteq> Admin)
     then Inr (unauthorized res (Some ''Unauthorized cannot delete a lecture.''), db) else
     andThen (parameterExists env req ''lectureId'') (\<lambda>lectureId.
     if \<not> truthy lectureId then Inr (badRequest res (Some ''Invalid lectureId''), db) else
     andThen (lectureData_findUnique env db (the_Val lectureId)) (\<lambda>lecture.
     case lecture of
       None \<Rightarrow> Inr (notFound res (Some ''Lecture doesn't exist.''), db)
     | Some l \<Rightarrow>
     andThen (module_findUnique env db (moduleId (subject l))) (\<lambda>module.
     if user_opt_yearId user \<noteq> module_opt_yearId module
     then Inr (unauthorized res (Some ''Unauthorized''), db) else
     andThen (lectureData_delete env db (the_Val lectureId)) (\<lambda>(deletedLecture, db').
     Inr (send res (Some ''Lecture has been deleted'') (Some 200) deletedLecture, db'))))))"

definition deleteLecture ::
  "('c, 'db) env \<Rightarrow> 'c Request \<Rightarrow> Response \<Rightarrow> 'db \<Rightarrow> exn + Response \<times> 'db" where
  "deleteLecture env req res db =
     try_catch (deleteLecture_try env req res db)
       (\<lambda>errorObject. Inr (catch_block res errorObject, db))"

definition getLinks_try ::
  "('c, 'db) env \<Rightarrow> 'c Request \<Rightarrow> Response \<Rightarrow> 'db \<Rightarrow> exn + Response \<times> 'db" where
  "getLinks_try env req res db =
     andThen (AuthController_user env req db) (\<lambda>user.
     andThen (parameterExists env req ''lectureId'') (\<lambda>lectureId.
     if \<not> truthy lectureId then Inr (badRequest res (Some ''Invalid lectureId''), db) else
     andThen (lectureData_findUnique env db (the_Val lectureId)) (\<lambda>lecture.
     case lecture of
       None \<Rightarrow> Inr (notFound res (Some ''Lecture doesn't exist.''), db)
     | Some l \<Rightarrow>
     andThen (module_findUnique env db (moduleId (subject l))) (\<lambda>module.
     if user_opt_yearId user \<noteq> module_opt_yearId module
     then Inr (unauthorized res (Some ''Unauthorized''), db) else
     andThen (lectureLinks_findMany env db (lecture_id l)) (\<lambda>links.
     Inr (send res (Some (''lectureId ['' @ template_number env (the_Val lectureId) @ ''] - Links''))
            (Some 200) links, db))))))"

definition getLinks ::
  "('c, 'db) env \<Rightarrow> 'c Request \<Rightarrow> Response \<Rightarrow> 'db \<Rightarrow> exn + Response \<times> 'db" where
  "getLinks env req res db =
     try_catch (getLinks_try env req res db)
       (\<lambda>errorObject. Inr (catch_block res errorObject, db))"

definition createLink_try ::
  "('c, 'db) env \<Rightarrow> 'c Request \<Rightarrow> Response \<Rightarrow> 'db \<Rightarrow> exn + Response \<times> 'db" where
  "createLink_try env req res db =
     andThen (AuthController_user env req db) (\<lambda>user.
     if (case user of None \<Rightarrow> True | Some u \<Rightarrow> role u \<noteq> Admin)
     then Inr (unauthorized res (Some ''Unauthorized cannot create a link.''), db) else
     andThen (parameterExists env req ''lectureId'') (\<lambda>lectureId.
     if \<not> truthy lectureId then Inr (badRequest res (Some ''Invalid lectureId''), db) else
     andThen (lectureData_findUnique env db (the_Val lectureId)) (\<lambda>lecture.
     case lecture of
       None \<Rightarrow> Inr (notFound res (Some ''Lecture doesn't exist.''), db)
     | Some l \<Rightarrow>
     andThen (module_findUnique env db (moduleId (subject l))) (\<lambda>module.
     if user_opt_yearId user \<noteq> module_opt_yearId module
     then Inr (unauthorized res (Some ''Unauthorized''), db) else
     (case linkSchema_create_safeParse env (body req) of
       Failure err \<Rightarrow> Inr (validationErrors env res (extractErrors env (Failure err)), db)
     | Success data \<Rightarrow>
     andThen (lectureLinks_create env db
                (set_prop ''createdAt'' (currentDate env)
                  (set_prop ''lectureId'' (JNum (lecture_id l)) data))) (\<lambda>(createdLink, db').
     Inr (send res (Some ''Lecture Link has been created'') (Some 201) createdLink, db')))))))"

definition createLink ::
  "('c, 'db) env \<Rightarrow> 'c Request \<Rightarrow> Response \<Rightarrow> 'db \<Rightarrow> exn + Response \<times> 'db" where
  "createLink env req res db =
     try_catch (createLink_try env req res db)
       (\<lambda>errorObject. Inr (catch_block res errorObject, db))"

definition updateLink_try ::
  "('c, 'db) env \<Rightarrow> 'c Request \<Rightarrow> Response \<Rightarrow> 'db \<Rightarrow> exn + Response \<times> 'db" where
  "updateLink_try env req res db =
     andThen (AuthController_user env req db) (\<lambda>user.
     if (case user of None \<Rightarrow> True | Some u \<Rightarrow> role u \<noteq> Admin)
     then Inr (unauthorized res (Some ''Unauthorized cannot update a link.''), db) else
     andThen (parameterExists env req ''lectureId'') (\<lambda>lectureId.
     andThen (parameterExists env req ''linkId'') (\<lambda>linkId.
     if \<not> truthy lectureId then Inr (badRequest res (Some ''Invalid lectureId''), db) else
     if \<not> truthy linkId then Inr (badRequest res (Some ''Invalid linkId''), db) else
     andThen (lectureData_findUnique env db (the_Val lectureId)) (\<lambda>lecture.
     andThen (lectureLinks_findUnique env db (the_Val linkId)) (\<lambda>link.
     case lecture of
       None \<Rightarrow> Inr (notFound res (Some ''Lecture doesn't exist.''), db)
     | Some l \<Rightarrow>
     (case link of
       None \<Rightarrow> Inr (notFound res (Some ''Link doesn't exist.''), db)
     | Some k \<Rightarrow>
     andThen (module_findUnique env db (moduleId (subject l))) (\<lambda>module.
     if user_opt_yearId user \<noteq> module_opt_yearId module
     then Inr (unauthorized res (Some ''Unauthorized''), db) else
     (case linkSchema_update_safeParse env (body req) of
       Failure err \<Rightarrow> Inr (validationErrors env res (extractErrors env (Failure err)), db)
     | Success data \<Rightarrow>
     andThen (lectureLinks_update env db (link_id k) data) (\<lambda>(createdLink, db').
     Inr (send res (Some ''Link has been updated'') (Some 200) createdLink, db'))))))))))"

definition updateLink ::
  "('c, 'db) env \<Rightarrow> 'c Request \<Rightarrow> Response \<Rightarrow> 'db \<Rightarrow> exn + Response \<times> 'db" where
  "updateLink env req res db =
     try_catch (updateLink_try env req res db)
       (\<lambda>errorObject. Inr (catch_block res errorObject, db))"

definition deleteLink_try ::
  "('c, 'db) env \<Rightarrow> 'c Request \<Rightarrow> Response \<Rightarrow> 'db \<Rightarrow> exn + Response \<times> 'db" where
  "deleteLink_try env req res db =
     andThen (AuthController_user env req db) (\<lambda>user.
     if (case user of None \<Rightarrow> True | Some u \<Rightarrow> role u \<noteq> Admin)
     then Inr (unauthorized res (Some ''Unauthorized cannot delete a link.''), db) else
     andThen (parameterExists env req ''lectureId'') (\<lambda>lectureId.
     andThen (parameterExists env req ''linkId'') (\<lambda>linkId.
     if \<not> truthy lectureId then Inr (badRequest res (Some ''Invalid lectureId''), db) else
     if \<not> truthy linkId then Inr (badRequest res (Some ''Invalid linkId''), db) else
     andThen (lectureData_findUnique env db (the_Val lectureId)) (\<lambda>lecture.
     andThen (lectureLinks_findUnique env db (the_Val linkId)) (\<lambda>link.
     case lecture of
       None \<Rightarrow> Inr (notFound res (Some ''Lecture doesn't exist.''), db)
     | Some l \<Rightarrow>
     (case link of
       None \<Rightarrow> Inr (notFound res (Some ''Link doesn't exist.''), db)
     | Some k \<Rightarrow>
     andThen (module_findUnique env db (moduleId (subject l))) (\<lambda>module.
     if user_opt_yearId user \<noteq> module_opt_yearId module
     then Inr (unauthorized res (Some ''Unauthorized''), db) else
     andThen (lectureLinks_delete env db (link_id k)) (\<lambda>(deletedLink, db').
     Inr (send res (Some ''Link has been deleted'') (Some 200) deletedLink, db')))))))))"

definition deleteLink ::
  "('c, 'db) env \<Rightarrow> 'c Request \<Rightarrow> Response \<Rightarrow> 'db \<Rightarrow> exn + Response \<times> 'db" where
  "deleteLink env req res db =
     try_catch (deleteLink_try env req res db)
       (\<lambda>errorObject. Inr (catch_block res errorObject, db))"

section \<open>A sample deployment\<close>

text \<open>
  A concrete environment on which the handlers can be run: one lecture (id 7) of a
  subject of module 5, one link (id 9) of that lecture, route parameters read from the
  request, schemas that accept any object, and a store that is the journal of the writes
  applied to it. The current user and the module row are parameters. The only number
  that reaches a template literal is the id 7 of the lecture, since no other lecture is
  found.
\<close>

definition sample_lecture :: LectureData where
  "sample_lecture = \<lparr>lecture_id = 7, subject = \<lparr>subject_id = 3, moduleId = 5\<rparr>\<rparr>"

definition sample_link :: LectureLink where
  "sample_link = \<lparr>link_id = 9, link_lectureId = 7\<rparr>"

definition sample_parse :: "json \<Rightarrow> SafeParseReturn" where
  "sample_parse b = (case b of JObj ps \<Rightarrow> Success ps | _ \<Rightarrow> Failure (JStr ''Expected object''))"

definition sample_env ::
  "User option \<Rightarrow> Module option \<Rightarrow> ((string \<times> int) list, (string \<times> int) list) env" where
  "sample_env who m =
     \<lparr>AuthController_user = (\<lambda>req db. Inr who),
      parameterExists = (\<lambda>req name.
         Inr (case map_of (meta req) name of None \<Rightarrow> Undefined | Some v \<Rightarrow> Val v)),
      lectureData_findUnique = (\<lambda>db i. Inr (if i = 7 then Some sample_lecture else None)),
      lectureData_update = (\<lambda>db i d. Inr (sample_lecture, db @ [(''lectureData.update'', i)])),
      lectureData_delete = (\<lambda>db i. Inr (sample_lecture, db @ [(''lectureData.delete'', i)])),
      module_findUnique = (\<lambda>db i. Inr (if i = 5 then m else None)),
      lectureLinks_findUnique = (\<lambda>db i. Inr (if i = 9 then Some sample_link else None)),
      lectureLinks_findMany = (\<lambda>db i. Inr (if i = 7 then [sample_link] else [])),
      lectureLinks_create = (\<lambda>db d. Inr (sample_link, db @ [(''lectureLinks.create'', 9)])),
      lectureLinks_update = (\<lambda>db i d. Inr (sample_link, db @ [(''lectureLinks.update'', i)])),
      lectureLinks_delete = (\<lambda>db i. Inr (sample_link, db @ [(''lectureLinks.delete'', i)])),
      subjectLecture_update_safeParse = sample_parse,
      linkSchema_create_safeParse = sample_parse,
      linkSchema_update_safeParse = sample_parse,
      extractErrors = (\<lambda>r. case r of Failure e \<Rightarrow> e | Success ps \<Rightarrow> JNull),
      validationErrors = (\<lambda>res errs. res_json (res_status res 400)
         (JObj [(''errors'', errs), (''message'', JStr ''Form validation errors.''),
                (''status'', JNum 400)])),
      currentDate = JStr ''2024-01-01T00:00:00.000Z'',
      template_number = (\<lambda>n. if n = 7 then ''7'' else [])\<rparr>"

definition sample_request :: "(string \<times> int) list Request" where
  "sample_request =
     \<lparr>meta = [(''lectureId'', 7), (''linkId'', 9)],
      body = JObj [(''title'', JStr ''Anatomy'')]\<rparr>"

definition fresh :: Response where
  "fresh = \<lparr>statusCode = 200, sent = None\<rparr>"

definition student :: "int \<Rightarrow> User" where
  "student y = \<lparr>user_id = 1, role = Student, user_yearId = Val y\<rparr>"

definition admin :: "int \<Rightarrow> User" where
  "admin y = \<lparr>user_id = 2, role = Admin, user_yearId = Val y\<rparr>"

definition module5 :: "int \<Rightarrow> Module" where
  "module5 y = \<lparr>module_id = 5, module_yearId = Val y\<rparr>"

text \<open>The sample deployment with a store whose lecture lookup throws.\<close>

definition broken_store ::
  "((string \<times> int) list, (string \<times> int) list) env" where
  "broken_store =
     (sample_env (Some (admin 2)) (Some (module5 2)))
       \<lparr>lectureData_findUnique := (\<lambda>db i. Inl (JStr ''Connection lost''))\<rparr>"

text \<open>The sample deployment with a store that refuses to update a lecture.\<close>

definition failing_write ::
  "((string \<times> int) list, (string \<times> int) list) env" where
  "failing_write =
     (sample_env (Some (admin 2)) (Some (module5 2)))
       \<lparr>lectureData_update := (\<lambda>db i d. Inl (JStr ''Write failed''))\<rparr>"


text \<open>A store to which one write has already been applied.\<close>

definition journal :: "(string \<times> int) list" where
  "journal = [(''lectureLinks.create'', 9)]"

section \<open>Response envelope\<close>

lemma send_simps:
  "statusCode (send res message status extra) = default_arg 200 status"
  "sent (send res message status extra) =
     Some (JObj [(''message'', JStr (default_arg '''' message)),
                 (''status'', JNum (default_arg 200 status))])"
  by (simp_all add: send_def Let_def res_json_def res_status_def)

lemma unauthorized_simps:
  "statusCode (unauthorized res message) = 401"
  "sent (unauthorized res message) =
     Some (JObj [(''message'', JStr (default_arg ''Unauthorized.'' message)),
                 (''status'', JNum 401)])"
  by (simp_all add: unauthorized_def res_json_def res_status_def)

lemma notFound_simps:
  "statusCode (notFound res message) = 404"
  "sent (notFound res message) =
     Some (JObj [(''message'', JStr (default_arg ''Error 404 - Not Found.'' message)),
                 (''status'', JNum 404)])"
  by (simp_all add: notFound_def res_json_def res_status_def)

lemma badRequest_simps:
  "statusCode (badRequest res message) = 500"
  "sent (badRequest res message) =
     Some (JObj [(''message'', JStr (default_arg ''Something went wrong.'' message)),
                 (''status'', JNum 500)])"
  by (simp_all add: badRequest_def res_json_def res_status_def)

lemma send_ignores_extra:
  "send res message status extra = send res message status extra'"
  by (simp add: send_def)

lemma role_rejection_differs:
  "unauthorized res (Some ''Unauthorized cannot update a lecture.'') \<noteq> unauthorized res (Some ''Unauthorized'')"
  "unauthorized res (Some ''Unauthorized cannot delete a lecture.'') \<noteq> unauthorized res (Some ''Unauthorized'')"
  "unauthorized res (Some ''Unauthorized cannot create a link.'') \<noteq> unauthorized res (Some ''Unauthorized'')"
  "unauthorized res (Some ''Unauthorized cannot update a link.'') \<noteq> unauthorized res (Some ''Unauthorized'')"
  "unauthorized res (Some ''Unauthorized cannot delete a link.'') \<noteq> unauthorized res (Some ''Unauthorized'')"
  by (auto simp add: unauthorized_simps dest!: arg_cong [where f = sent])

lemma rejection_status:
  "r = unauthorized res m \<or> r = notFound res m \<or> r = badRequest res m
   \<Longrightarrow> statusCode r \<noteq> 200 \<and> statusCode r \<noteq> 201"
  by (auto simp add: unauthorized_simps notFound_simps badRequest_simps)

text \<open>
  C5. Each of \<open>send\<close>, \<open>unauthorized\<close>, \<open>notFound\<close> and \<open>badRequest\<close> sends an object
  whose properties are exactly \<open>message\<close> and \<open>status\<close>, in this order; the \<open>status\<close>
  property is the HTTP status code set on the response; and the body sent by \<open>send\<close> is
  the same whatever resource is passed as the extra argument, so the resource is not part
  of it.
\<close>

theorem formatters_envelope:
  "(\<exists>b. sent (send res message status extra) = Some b
        \<and> keys b = [''message'', ''status'']
        \<and> get_prop ''status'' b = Some (JNum (statusCode (send res message status extra)))
        \<and> get_prop ''message'' b = Some (JStr (default_arg '''' message)))
   \<and> send res message status extra = send res message status extra'
   \<and> (\<exists>b. sent (unauthorized res message) = Some b
        \<and> keys b = [''message'', ''status'']
        \<and> get_prop ''status'' b = Some (JNum (statusCode (unauthorized res message))))
   \<and> (\<exists>b. sent (notFound res message) = Some b
        \<and> keys b = [''message'', ''status'']
        \<and> get_prop ''status'' b = Some (JNum (statusCode (notFound res message))))
   \<and> (\<exists>b. sent (badRequest res message) = Some b
        \<and> keys b = [''message'', ''status'']
        \<and> get_prop ''status'' b = Some (JNum (statusCode (badRequest res message))))"
proof -
  have "send res message status extra = send res message status extra'"
    by (rule send_ignores_extra)
  then show ?thesis
    by (simp add: send_simps unauthorized_simps notFound_simps badRequest_simps)
qed

section \<open>Running the handlers\<close>

lemma andThen_simps [simp]:
  "andThen (Inr v) k = k v"
  "andThen (Inl e) k = Inl e"
  by (simp_all add: andThen_def)

lemma try_catch_simps [simp]:
  "try_catch (Inr v) h = Inr v"
  "try_catch (Inl e) h = h e"
  by (simp_all add: try_catch_def)

lemmas handler_defs =
  get_def updateLecture_def deleteLecture_def getLinks_def createLink_def updateLink_def
  deleteLink_def

lemmas try_defs =
  get_try_def updateLecture_try_def deleteLecture_try_def getLinks_try_def createLink_try_def
  updateLink_try_def deleteLink_try_def

section \<open>Role check of the mutating handlers\<close>

text \<open>
  C2. When the caller is resolved and the role is not Admin, \<open>updateLecture\<close>,
  \<open>deleteLecture\<close>, \<open>createLink\<close>, \<open>updateLink\<close> and \<open>deleteLink\<close> each answer with
  \<open>unauthorized\<close>, status 401, and leave the store as it was. Nothing is assumed about
  the year of the caller or of the module, so the answer is the same whether or not the
  years match.
\<close>

theorem mutations_require_Admin:
  assumes "AuthController_user env req db = Inr (Some u)" and "role u \<noteq> Admin"
  shows "updateLecture env req res db =
           Inr (unauthorized res (Some ''Unauthorized cannot update a lecture.''), db)
       \<and> deleteLecture env req res db =
           Inr (unauthorized res (Some ''Unauthorized cannot delete a lecture.''), db)
       \<and> createLink env req res db =
           Inr (unauthorized res (Some ''Unauthorized cannot create a link.''), db)
       \<and> updateLink env req res db =
           Inr (unauthorized res (Some ''Unauthorized cannot update a link.''), db)
       \<and> deleteLink env req res db =
           Inr (unauthorized res (Some ''Unauthorized cannot delete a link.''), db)
       \<and> statusCode (unauthorized res (Some ''Unauthorized cannot update a lecture.'')) = 401
       \<and> statusCode (unauthorized res (Some ''Unauthorized cannot delete a lecture.'')) = 401
       \<and> statusCode (unauthorized res (Some ''Unauthorized cannot create a link.'')) = 401
       \<and> statusCode (unauthorized res (Some ''Unauthorized cannot update a link.'')) = 401
       \<and> statusCode (unauthorized res (Some ''Unauthorized cannot delete a link.'')) = 401"
  using assms by (simp add: handler_defs try_defs unauthorized_simps)

theorem mutations_require_Admin_witness:
  "AuthController_user (sample_env (Some (student 2)) (Some (module5 2))) sample_request [] =
     Inr (Some (student 2))
   \<and> role (student 2) \<noteq> Admin
   \<and> user_yearId (student 2) = module_yearId (module5 2)
   \<and> deleteLink (sample_env (Some (student 2)) (Some (module5 2))) sample_request fresh [] =
       Inr (unauthorized fresh (Some ''Unauthorized cannot delete a link.''), [])
   \<and> updateLecture (sample_env (Some (student 2)) (Some (module5 2))) sample_request fresh [] =
       Inr (unauthorized fresh (Some ''Unauthorized cannot update a lecture.''), [])"
  using mutations_require_Admin [of "sample_env (Some (student 2)) (Some (module5 2))"
      sample_request "[]" "student 2" fresh]
  by (simp add: sample_env_def student_def module5_def)

text \<open>
  C3. In every mutating handler the role check comes before the ownership check: for a
  caller who is not Admin and whose year differs from the year of the module that owns
  the lecture, the answer is the rejection of the role check (its message names the
  operation), not the rejection \<open>Unauthorized\<close> of the ownership check.
\<close>

theorem role_check_precedes_ownership:
  assumes "AuthController_user env req db = Inr (Some u)" and "role u \<noteq> Admin"
    and "parameterExists env req ''lectureId'' = Inr lectureId" and "truthy lectureId"
    and "lectureData_findUnique env db (the_Val lectureId) = Inr (Some l)"
    and "module_findUnique env db (moduleId (subject l)) = Inr module"
    and "user_opt_yearId (Some u) \<noteq> module_opt_yearId module"
  shows "updateLecture env req res db =
           Inr (unauthorized res (Some ''Unauthorized cannot update a lecture.''), db)
       \<and> updateLecture env req res db \<noteq> Inr (unauthorized res (Some ''Unauthorized''), db)
       \<and> deleteLecture env req res db =
           Inr (unauthorized res (Some ''Unauthorized cannot delete a lecture.''), db)
       \<and> deleteLecture env req res db \<noteq> Inr (unauthorized res (Some ''Unauthorized''), db)
       \<and> createLink env req res db =
           Inr (unauthorized res (Some ''Unauthorized cannot create a link.''), db)
       \<and> createLink env req res db \<noteq> Inr (unauthorized res (Some ''Unauthorized''), db)
       \<and> updateLink env req res db =
           Inr (unauthorized res (Some ''Unauthorized cannot update a link.''), db)
       \<and> updateLink env req res db \<noteq> Inr (unauthorized res (Some ''Unauthorized''), db)
       \<and> deleteLink env req res db =
           Inr (unauthorized res (Some ''Unauthorized cannot delete a link.''), db)
       \<and> deleteLink env req res db \<noteq> Inr (unauthorized res (Some ''Unauthorized''), db)"
  using assms(1,2) by (simp add: handler_defs try_defs role_rejection_differs)

theorem role_check_precedes_ownership_witness:
  "AuthController_user (sample_env (Some (student 1)) (Some (module5 2))) sample_request [] =
     Inr (Some (student 1))
   \<and> role (student 1) \<noteq> Admin
   \<and> parameterExists (sample_env (Some (student 1)) (Some (module5 2))) sample_request
        ''lectureId'' = Inr (Val 7)
   \<and> truthy (Val 7)
   \<and> lectureData_findUnique (sample_env (Some (student 1)) (Some (module5 2))) []
        (the_Val (Val 7)) = Inr (Some sample_lecture)
   \<and> module_findUnique (sample_env (Some (student 1)) (Some (module5 2))) []
        (moduleId (subject sample_lecture)) = Inr (Some (module5 2))
   \<and> user_opt_yearId (Some (student 1)) \<noteq> module_opt_yearId (Some (module5 2))
   \<and> deleteLecture (sample_env (Some (student 1)) (Some (module5 2))) sample_request fresh [] =
        Inr (unauthorized fresh (Some ''Unauthorized cannot delete a lecture.''), [])
   \<and> deleteLecture (sample_env (Some (student 1)) (Some (module5 2))) sample_request fresh [] \<noteq>
        Inr (unauthorized fresh (Some ''Unauthorized''), [])"
proof -
  let ?env = "sample_env (Some (student 1)) (Some (module5 2))"
  have h1: "AuthController_user ?env sample_request [] = Inr (Some (student 1))"
    by (simp add: sample_env_def)
  have h2: "role (student 1) \<noteq> Admin"
    by (simp add: student_def)
  have h3: "parameterExists ?env sample_request ''lectureId'' = Inr (Val 7)"
    by (simp add: sample_env_def sample_request_def)
  have h4: "truthy (Val 7)"
    by simp
  have h5: "lectureData_findUnique ?env [] (the_Val (Val 7)) = Inr (Some sample_lecture)"
    by (simp add: sample_env_def)
  have h6: "module_findUnique ?env [] (moduleId (subject sample_lecture)) = Inr (Some (module5 2))"
    by (simp add: sample_env_def sample_lecture_def)
  have h7: "user_opt_yearId (Some (student 1)) \<noteq> module_opt_yearId (Some (module5 2))"
    by (simp add: student_def module5_def)
  from role_check_precedes_ownership [OF h1 h2 h3 h4 h5 h6 h7, of fresh] h1 h2 h3 h4 h5 h6 h7
  show ?thesis by blast
qed

section \<open>Ownership check of the read handlers\<close>







section \<open>A lecture whose module is missing\<close>

text \<open>
  C1, as the code has it. When the lecture exists and the module lookup returns no
  module, no handler answers \<open>notFound\<close> for the missing module: \<open>module?.yearId\<close> is
  \<open>undefined\<close>, and a caller whose \<open>yearId\<close> is not \<open>undefined\<close> is answered with
  \<open>unauthorized\<close> (401, message \<open>Unauthorized\<close>), which is not a \<open>notFound\<close> response.
  This holds for \<open>get\<close> and \<open>getLinks\<close>, for \<open>updateLecture\<close>, \<open>deleteLecture\<close> and
  \<open>createLink\<close> when the caller is Admin, and for \<open>updateLink\<close> and \<open>deleteLink\<close> when
  the caller is Admin and the link exists.
\<close>

theorem missing_module_is_unauthorized:
  assumes "AuthController_user env req db = Inr (Some u)"
    and "user_yearId u \<noteq> Undefined"
    and "parameterExists env req ''lectureId'' = Inr lectureId" and "truthy lectureId"
    and "lectureData_findUnique env db (the_Val lectureId) = Inr (Some l)"
    and "module_findUnique env db (moduleId (subject l)) = Inr None"
  shows "get env req res db = Inr (unauthorized res (Some ''Unauthorized''), db)
       \<and> getLinks env req res db = Inr (unauthorized res (Some ''Unauthorized''), db)
       \<and> (role u = Admin \<longrightarrow>
            updateLecture env req res db = Inr (unauthorized res (Some ''Unauthorized''), db)
          \<and> deleteLecture env req res db = Inr (unauthorized res (Some ''Unauthorized''), db)
          \<and> createLink env req res db = Inr (unauthorized res (Some ''Unauthorized''), db))
       \<and> (role u = Admin \<and> parameterExists env req ''linkId'' = Inr linkId \<and> truthy linkId
            \<and> lectureLinks_findUnique env db (the_Val linkId) = Inr (Some k) \<longrightarrow>
            updateLink env req res db = Inr (unauthorized res (Some ''Unauthorized''), db)
          \<and> deleteLink env req res db = Inr (unauthorized res (Some ''Unauthorized''), db))
       \<and> statusCode (unauthorized res (Some ''Unauthorized'')) = 401
       \<and> unauthorized res (Some ''Unauthorized'') \<noteq> notFound res msg"
proof -
  have "unauthorized res (Some ''Unauthorized'') \<noteq> notFound res msg"
    by (auto simp add: unauthorized_simps notFound_simps dest!: arg_cong [where f = statusCode])
  with assms show ?thesis
    by (simp add: handler_defs try_defs unauthorized_simps)
qed

theorem missing_module_is_unauthorized_witness:
  "user_yearId (admin 2) \<noteq> Undefined
   \<and> role (admin 2) = Admin
   \<and> parameterExists (sample_env (Some (admin 2)) None) sample_request ''linkId'' = Inr (Val 9)
   \<and> truthy (Val 9)
   \<and> lectureLinks_findUnique (sample_env (Some (admin 2)) None) [] (the_Val (Val 9)) =
        Inr (Some sample_link)
   \<and> lectureData_findUnique (sample_env (Some (admin 2)) None) [] (the_Val (Val 7)) =
        Inr (Some sample_lecture)
   \<and> module_findUnique (sample_env (Some (admin 2)) None) []
        (moduleId (subject sample_lecture)) = Inr None
   \<and> get (sample_env (Some (admin 2)) None) sample_request fresh [] =
        Inr (unauthorized fresh (Some ''Unauthorized''), [])
   \<and> updateLecture (sample_env (Some (admin 2)) None) sample_request fresh [] =
        Inr (unauthorized fresh (Some ''Unauthorized''), [])
   \<and> deleteLink (sample_env (Some (admin 2)) None) sample_request fresh [] =
        Inr (unauthorized fresh (Some ''Unauthorized''), [])"
proof -
  let ?env = "sample_env (Some (admin 2)) None"
  have u: "AuthController_user ?env sample_request [] = Inr (Some (admin 2))"
    by (simp add: sample_env_def)
  have y: "user_yearId (admin 2) \<noteq> Undefined" and r: "role (admin 2) = Admin"
    by (simp_all add: admin_def)
  have p: "parameterExists ?env sample_request ''lectureId'' = Inr (Val 7)"
    and q: "parameterExists ?env sample_request ''linkId'' = Inr (Val 9)"
    by (simp_all add: sample_env_def sample_request_def)
  have t: "truthy (Val 7)" and t': "truthy (Val 9)"
    by simp_all
  have l: "lectureData_findUnique ?env [] (the_Val (Val 7)) = Inr (Some sample_lecture)"
    and k: "lectureLinks_findUnique ?env [] (the_Val (Val 9)) = Inr (Some sample_link)"
    by (simp_all add: sample_env_def)
  have m: "module_findUnique ?env [] (moduleId (subject sample_lecture)) = Inr None"
    by (simp add: sample_env_def sample_lecture_def)
  from missing_module_is_unauthorized [OF u y p t l m, where linkId = "Val 9" and k = sample_link
      and res = fresh and msg = None]
    y r q t' l k m
  show ?thesis by simp
qed

text \<open>
  A student of year 1 reads the sample lecture while its module row is missing: the
  answer is \<open>unauthorized\<close> with status 401, not \<open>notFound\<close>.
\<close>

theorem missing_module_counterexample:
  "lectureData_findUnique (sample_env (Some (student 1)) None) [] 7 = Inr (Some sample_lecture)
   \<and> module_findUnique (sample_env (Some (student 1)) None) []
        (moduleId (subject sample_lecture)) = Inr None
   \<and> get (sample_env (Some (student 1)) None) sample_request fresh [] =
        Inr (unauthorized fresh (Some ''Unauthorized''), [])
   \<and> statusCode (unauthorized fresh (Some ''Unauthorized'')) = 401
   \<and> statusCode (unauthorized fresh (Some ''Unauthorized'')) \<noteq> 404
   \<and> unauthorized fresh (Some ''Unauthorized'') \<noteq> notFound fresh (Some ''Lecture doesn't exist.'')"
  by (simp add: get_def get_try_def sample_env_def sample_request_def sample_lecture_def
      student_def unauthorized_simps)
    (auto simp add: unauthorized_simps notFound_simps dest!: arg_cong [where f = statusCode])

section \<open>Errors at the handler boundary\<close>

text \<open>
  C6. A request without the \<open>lectureId\<close> parameter is answered by \<open>badRequest\<close>, whose
  status code is 500 and not the 400 of a rejected request: run on the sample deployment,
  \<open>get\<close> answers with status 500 and the message \<open>Invalid lectureId\<close>.
\<close>

theorem missing_lectureId_answers_500:
  "parameterExists (sample_env (Some (student 1)) (Some (module5 1)))
     (sample_request\<lparr>meta := []\<rparr>) ''lectureId'' = Inr Undefined
   \<and> get (sample_env (Some (student 1)) (Some (module5 1))) (sample_request\<lparr>meta := []\<rparr>) fresh [] =
       Inr (badRequest fresh (Some ''Invalid lectureId''), [])
   \<and> statusCode (badRequest fresh (Some ''Invalid lectureId'')) = 500
   \<and> statusCode (badRequest fresh (Some ''Invalid lectureId'')) \<noteq> 400"
  by (simp add: get_def get_try_def sample_env_def sample_request_def badRequest_simps)

lemma try_catch_returns:
  "\<exists>r. try_catch block (\<lambda>errorObject. Inr (f errorObject)) = Inr r"
  by (cases block) simp_all

text \<open>
  C7. In each of the seven handlers, a value thrown by any call inside the \<open>try\<close> block
  is caught: whichever of \<open>AuthController.user\<close>, \<open>parameterExists\<close>, the lecture, link
  or module lookup, the query for the links, or the create, update or delete of the store
  throws once the handler has reached it, the handler answers with status 500 and a body
  whose \<open>message\<close> is \<open>Error - Something Went Wrong.\<close> and whose \<open>status\<close> is 500, on
  the store it was given. Every handler returns normally, so nothing is thrown out of it.
\<close>

theorem exceptions_become_500:
  "statusCode (catch_block res e) = 500
   \<and> (\<exists>b. sent (catch_block res e) = Some b
          \<and> get_prop ''message'' b = Some (JStr ''Error - Something Went Wrong.'')
          \<and> get_prop ''status'' b = Some (JNum 500))
   \<and> (\<exists>r. get env req res db = Inr r)
   \<and> (\<exists>r. updateLecture env req res db = Inr r)
   \<and> (\<exists>r. deleteLecture env req res db = Inr r)
   \<and> (\<exists>r. getLinks env req res db = Inr r)
   \<and> (\<exists>r. createLink env req res db = Inr r)
   \<and> (\<exists>r. updateLink env req res db = Inr r)
   \<and> (\<exists>r. deleteLink env req res db = Inr r)
   \<and> (AuthController_user env req db = Inl e \<longrightarrow>
        get env req res db = Inr (catch_block res e, db))
   \<and> (AuthController_user env req db = Inr user \<and>
        parameterExists env req ''lectureId'' = Inl e \<longrightarrow>
        get env req res db = Inr (catch_block res e, db))
   \<and> (AuthController_user env req db = Inr user \<and>
        parameterExists env req ''lectureId'' = Inr lectureId \<and> truthy lectureId \<and>
        lectureData_findUnique env db (the_Val lectureId) = Inl e \<longrightarrow>
        get env req res db = Inr (catch_block res e, db))
   \<and> (AuthController_user env req db = Inr user \<and>
        parameterExists env req ''lectureId'' = Inr lectureId \<and> truthy lectureId \<and>
        lectureData_findUnique env db (the_Val lectureId) = Inr (Some l) \<and>
        module_findUnique env db (moduleId (subject l)) = Inl e \<longrightarrow>
        get env req res db = Inr (catch_block res e, db))
   \<and> (AuthController_user env req db = Inl e \<longrightarrow>
        updateLecture env req res db = Inr (catch_block res e, db))
   \<and> (AuthController_user env req db = Inr (Some u) \<and> role u = Admin \<and>
        parameterExists env req ''lectureId'' = Inl e \<longrightarrow>
        updateLecture env req res db = Inr (catch_block res e, db))
   \<and> (AuthController_user env req db = Inr (Some u) \<and> role u = Admin \<and>
        parameterExists env req ''lectureId'' = Inr lectureId \<and> truthy lectureId \<and>
        lectureData_findUnique env db (the_Val lectureId) = Inl e \<longrightarrow>
        updateLecture env req res db = Inr (catch_block res e, db))
   \<and> (AuthController_user env req db = Inr (Some u) \<and> role u = Admin \<and>
        parameterExists env req ''lectureId'' = Inr lectureId \<and> truthy lectureId \<and>
        lectureData_findUnique env db (the_Val lectureId) = Inr (Some l) \<and>
        module_findUnique env db (moduleId (subject l)) = Inl e \<longrightarrow>
        updateLecture env req res db = Inr (catch_block res e, db))
   \<and> (AuthController_user env req db = Inr (Some u) \<and> role u = Admin \<and>
        parameterExists env req ''lectureId'' = Inr lectureId \<and> truthy lectureId \<and>
        lectureData_findUnique env db (the_Val lectureId) = Inr (Some l) \<and>
        module_findUnique env db (moduleId (subject l)) = Inr module \<and>
        user_opt_yearId (Some u) = module_opt_yearId module \<and>
        subjectLecture_update_safeParse env (body req) = Success data \<and>
        lectureData_update env db (the_Val lectureId) data = Inl e \<longrightarrow>
        updateLecture env req res db = Inr (catch_block res e, db))
   \<and> (AuthController_user env req db = Inl e \<longrightarrow>
        deleteLecture env req res db = Inr (catch_block res e, db))
   \<and> (AuthController_user env req db = Inr (Some u) \<and> role u = Admin \<and>
        parameterExists env req ''lectureId'' = Inl e \<longrightarrow>
        deleteLecture env req res db = Inr (catch_block res e, db))
   \<and> (AuthController_user env req db = Inr (Some u) \<and> role u = Admin \<and>
        parameterExists env req ''lectureId'' = Inr lectureId \<and> truthy lectureId \<and>
        lectureData_findUnique env db (the_Val lectureId) = Inl e \<longrightarrow>
        deleteLecture env req res db = Inr (catch_block res e, db))
   \<and> (AuthController_user env req db = Inr (Some u) \<and> role u = Admin \<and>
        parameterExists env req ''lectureId'' = Inr lectureId \<and> truthy lectureId \<and>
        lectureData_findUnique env db (the_Val lectureId) = Inr (Some l) \<and>
        module_findUnique env db (moduleId (subject l)) = Inl e \<longrightarrow>
        deleteLecture env req res db = Inr (catch_block res e, db))
   \<and> (AuthController_user env req db = Inr (Some u) \<and> role u = Admin \<and>
        parameterExists env req ''lectureId'' = Inr lectureId \<and> truthy lectureId \<and>
        lectureData_findUnique env db (the_Val lectureId) = Inr (Some l) \<and>
        module_findUnique env db (moduleId (subject l)) = Inr module \<and>
        user_opt_yearId (Some u) = module_opt_yearId module \<and>
        lectureData_delete env db (the_Val lectureId) = Inl e \<longrightarrow>
        deleteLecture env req res db = Inr (catch_block res e, db))
   \<and> (AuthController_user env req db = Inl e \<longrightarrow>
        getLinks env req res db = Inr (catch_block res e, db))
   \<and> (AuthController_user env req db = Inr user \<and>
        parameterExists env req ''lectureId'' = Inl e \<longrightarrow>
        getLinks env req res db = Inr (catch_block res e, db))
   \<and> (AuthController_user env req db = Inr user \<and>
        parameterExists env req ''lectureId'' = Inr lectureId \<and> truthy lectureId \<and>
        lectureData_findUnique env db (the_Val lectureId) = Inl e \<longrightarrow>
        getLinks env req res db = Inr (catch_block res e, db))
   \<and> (AuthController_user env req db = Inr user \<and>
        parameterExists env req ''lectureId'' = Inr lectureId \<and> truthy lectureId \<and>
        lectureData_findUnique env db (the_Val lectureId) = Inr (Some l) \<and>
        module_findUnique env db (moduleId (subject l)) = Inl e \<longrightarrow>
        getLinks env req res db = Inr (catch_block res e, db))
   \<and> (AuthController_user env req db = Inr user \<and>
        parameterExists env req ''lectureId'' = Inr lectureId \<and> truthy lectureId \<and>
        lectureData_findUnique env db (the_Val lectureId) = Inr (Some l) \<and>
        module_findUnique env db (moduleId (subject l)) = Inr module \<and>
        user_opt_yearId user = module_opt_yearId module \<and>
        lectureLinks_findMany env db (lecture_id l) = Inl e \<longrightarrow>
        getLinks env req res db = Inr (catch_block res e, db))
   \<and> (AuthController_user env req db = Inl e \<longrightarrow>
        createLink env req res db = Inr (catch_block res e, db))
   \<and> (AuthController_user env req db = Inr (Some u) \<and> role u = Admin \<and>
        parameterExists env req ''lectureId'' = Inl e \<longrightarrow>
        createLink env req res db = Inr (catch_block res e, db))
   \<and> (AuthController_user env req db = Inr (Some u) \<and> role u = Admin \<and>
        parameterExists env req ''lectureId'' = Inr lectureId \<and> truthy lectureId \<and>
        lectureData_findUnique env db (the_Val lectureId) = Inl e \<longrightarrow>
        createLink env req res db = Inr (catch_block res e, db))
   \<and> (AuthController_user env req db = Inr (Some u) \<and> role u = Admin \<and>
        parameterExists env req ''lectureId'' = Inr lectureId \<and> truthy lectureId \<and>
        lectureData_findUnique env db (the_Val lectureId) = Inr (Some l) \<and>
        module_findUnique env db (moduleId (subject l)) = Inl e \<longrightarrow>
        createLink env req res db = Inr (catch_block res e, db))
   \<and> (AuthController_user env req db = Inr (Some u) \<and> role u = Admin \<and>
        parameterExists env req ''lectureId'' = Inr lectureId \<and> truthy lectureId \<and>
        lectureData_findUnique env db (the_Val lectureId) = Inr (Some l) \<and>
        module_findUnique env db (moduleId (subject l)) = Inr module \<and>
        user_opt_yearId (Some u) = module_opt_yearId module \<and>
        linkSchema_create_safeParse env (body req) = Success data \<and>
        lectureLinks_create env db (set_prop ''createdAt'' (currentDate env) (set_prop ''lectureId'' (JNum (lecture_id l)) data)) = Inl e \<longrightarrow>
        createLink env req res db = Inr (catch_block res e, db))
   \<and> (AuthController_user env req db = Inl e \<longrightarrow>
        updateLink env req res db = Inr (catch_block res e, db))
   \<and> (AuthController_user env req db = Inr (Some u) \<and> role u = Admin \<and>
        parameterExists env req ''lectureId'' = Inl e \<longrightarrow>
        updateLink env req res db = Inr (catch_block res e, db))
   \<and> (AuthController_user env req db = Inr (Some u) \<and> role u = Admin \<and>
        parameterExists env req ''lectureId'' = Inr lectureId \<and>
        parameterExists env req ''linkId'' = Inl e \<longrightarrow>
        updateLink env req res db = Inr (catch_block res e, db))
   \<and> (AuthController_user env req db = Inr (Some u) \<and> role u = Admin \<and>
        parameterExists env req ''lectureId'' = Inr lectureId \<and>
        parameterExists env req ''linkId'' = Inr linkId \<and> truthy lectureId \<and>
        truthy linkId \<and>
        lectureData_findUnique env db (the_Val lectureId) = Inl e \<longrightarrow>
        updateLink env req res db = Inr (catch_block res e, db))
   \<and> (AuthController_user env req db = Inr (Some u) \<and> role u = Admin \<and>
        parameterExists env req ''lectureId'' = Inr lectureId \<and>
        parameterExists env req ''linkId'' = Inr linkId \<and> truthy lectureId \<and>
        truthy linkId \<and>
        lectureData_findUnique env db (the_Val lectureId) = Inr lecture \<and>
        lectureLinks_findUnique env db (the_Val linkId) = Inl e \<longrightarrow>
        updateLink env req res db = Inr (catch_block res e, db))
   \<and> (AuthController_user env req db = Inr (Some u) \<and> role u = Admin \<and>
        parameterExists env req ''lectureId'' = Inr lectureId \<and>
        parameterExists env req ''linkId'' = Inr linkId \<and> truthy lectureId \<and>
        truthy linkId \<and>
        lectureData_findUnique env db (the_Val lectureId) = Inr (Some l) \<and>
        lectureLinks_findUnique env db (the_Val linkId) = Inr (Some k) \<and>
        module_findUnique env db (moduleId (subject l)) = Inl e \<longrightarrow>
        updateLink env req res db = Inr (catch_block res e, db))
   \<and> (AuthController_user env req db = Inr (Some u) \<and> role u = Admin \<and>
        parameterExists env req ''lectureId'' = Inr lectureId \<and>
        parameterExists env req ''linkId'' = Inr linkId \<and> truthy lectureId \<and>
        truthy linkId \<and>
        lectureData_findUnique env db (the_Val lectureId) = Inr (Some l) \<and>
        lectureLinks_findUnique env db (the_Val linkId) = Inr (Some k) \<and>
        module_findUnique env db (moduleId (subject l)) = Inr module \<and>
        user_opt_yearId (Some u) = module_opt_yearId module \<and>
        linkSchema_update_safeParse env (body req) = Success data \<and>
        lectureLinks_update env db (link_id k) data = Inl e \<longrightarrow>
        updateLink env req res db = Inr (catch_block res e, db))
   \<and> (AuthController_user env req db = Inl e \<longrightarrow>
        deleteLink env req res db = Inr (catch_block res e, db))
   \<and> (AuthController_user env req db = Inr (Some u) \<and> role u = Admin \<and>
        parameterExists env req ''lectureId'' = Inl e \<longrightarrow>
        deleteLink env req res db = Inr (catch_block res e, db))
   \<and> (AuthController_user env req db = Inr (Some u) \<and> role u = Admin \<and>
        parameterExists env req ''lectureId'' = Inr lectureId \<and>
        parameterExists env req ''linkId'' = Inl e \<longrightarrow>
        deleteLink env req res db = Inr (catch_block res e, db))
   \<and> (AuthController_user env req db = Inr (Some u) \<and> role u = Admin \<and>
        parameterExists env req ''lectureId'' = Inr lectureId \<and>
        parameterExists env req ''linkId'' = Inr linkId \<and> truthy lectureId \<and>
        truthy linkId \<and>
        lectureData_findUnique env db (the_Val lectureId) = Inl e \<longrightarrow>
        deleteLink env req res db = Inr (catch_block res e, db))
   \<and> (AuthController_user env req db = Inr (Some u) \<and> role u = Admin \<and>
        parameterExists env req ''lectureId'' = Inr lectureId \<and>
        parameterExists env req ''linkId'' = Inr linkId \<and> truthy lectureId \<and>
        truthy linkId \<and>
        lectureData_findUnique env db (the_Val lectureId) = Inr lecture \<and>
        lectureLinks_findUnique env db (the_Val linkId) = Inl e \<longrightarrow>
        deleteLink env req res db = Inr (catch_block res e, db))
   \<and> (AuthController_user env req db = Inr (Some u) \<and> role u = Admin \<and>
        parameterExists env req ''lectureId'' = Inr lectureId \<and>
        parameterExists env req ''linkId'' = Inr linkId \<and> truthy lectureId \<and>
        truthy linkId \<and>
        lectureData_findUnique env db (the_Val lectureId) = Inr (Some l) \<and>
        lectureLinks_findUnique env db (the_Val linkId) = Inr (Some k) \<and>
        module_findUnique env db (moduleId (subject l)) = Inl e \<longrightarrow>
        deleteLink env req res db = Inr (catch_block res e, db))
   \<and> (AuthController_user env req db = Inr (Some u) \<and> role u = Admin \<and>
        parameterExists env req ''lectureId'' = Inr lectureId \<and>
        parameterExists env req ''linkId'' = Inr linkId \<and> truthy lectureId \<and>
        truthy linkId \<and>
        lectureData_findUnique env db (the_Val lectureId) = Inr (Some l) \<and>
        lectureLinks_findUnique env db (the_Val linkId) = Inr (Some k) \<and>
        module_findUnique env db (moduleId (subject l)) = Inr module \<and>
        user_opt_yearId (Some u) = module_opt_yearId module \<and>
        lectureLinks_delete env db (link_id k) = Inl e \<longrightarrow>
        deleteLink env req res db = Inr (catch_block res e, db))"
  by (intro conjI impI; (elim conjE)?;
      ((simp add: catch_block_def res_json_def res_status_def; fail)
       | (unfold handler_defs, rule try_catch_returns)
       | simp add: handler_defs try_defs))

theorem exceptions_become_500_witness:
  "AuthController_user broken_store sample_request [] = Inr (Some (admin 2))
   \<and> role (admin 2) = Admin
   \<and> parameterExists broken_store sample_request ''lectureId'' = Inr (Val 7)
   \<and> parameterExists broken_store sample_request ''linkId'' = Inr (Val 9)
   \<and> truthy (Val 7) \<and> truthy (Val 9)
   \<and> lectureData_findUnique broken_store [] (the_Val (Val 7)) = Inl (JStr ''Connection lost'')
   \<and> get broken_store sample_request fresh [] =
        Inr (catch_block fresh (JStr ''Connection lost''), [])
   \<and> updateLecture broken_store sample_request fresh [] =
        Inr (catch_block fresh (JStr ''Connection lost''), [])
   \<and> deleteLecture broken_store sample_request fresh [] =
        Inr (catch_block fresh (JStr ''Connection lost''), [])
   \<and> getLinks broken_store sample_request fresh [] =
        Inr (catch_block fresh (JStr ''Connection lost''), [])
   \<and> createLink broken_store sample_request fresh [] =
        Inr (catch_block fresh (JStr ''Connection lost''), [])
   \<and> updateLink broken_store sample_request fresh [] =
        Inr (catch_block fresh (JStr ''Connection lost''), [])
   \<and> deleteLink broken_store sample_request fresh [] =
        Inr (catch_block fresh (JStr ''Connection lost''), [])
   \<and> statusCode (catch_block fresh (JStr ''Connection lost'')) = 500
   \<and> lectureData_update failing_write [] (the_Val (Val 7)) [(''title'', JStr ''Anatomy'')] =
        Inl (JStr ''Write failed'')
   \<and> updateLecture failing_write sample_request fresh [] =
        Inr (catch_block fresh (JStr ''Write failed''), [])"
proof -
  have a: "AuthController_user broken_store sample_request [] = Inr (Some (admin 2))"
    and p: "parameterExists broken_store sample_request ''lectureId'' = Inr (Val 7)"
    and q: "parameterExists broken_store sample_request ''linkId'' = Inr (Val 9)"
    and l: "lectureData_findUnique broken_store [] (the_Val (Val 7)) =
              Inl (JStr ''Connection lost'')"
    by (simp_all add: broken_store_def sample_env_def sample_request_def)
  have r: "role (admin 2) = Admin"
    by (simp add: admin_def)
  have t: "truthy (Val 7)" "truthy (Val 9)"
    by simp_all
  have a': "AuthController_user failing_write sample_request [] = Inr (Some (admin 2))"
    and p': "parameterExists failing_write sample_request ''lectureId'' = Inr (Val 7)"
    and l': "lectureData_findUnique failing_write [] (the_Val (Val 7)) = Inr (Some sample_lecture)"
    and m': "module_findUnique failing_write [] (moduleId (subject sample_lecture)) =
               Inr (Some (module5 2))"
    and b': "subjectLecture_update_safeParse failing_write (body sample_request) =
               Success [(''title'', JStr ''Anatomy'')]"
    and w': "lectureData_update failing_write [] (the_Val (Val 7)) [(''title'', JStr ''Anatomy'')] =
               Inl (JStr ''Write failed'')"
    by (simp_all add: failing_write_def sample_env_def sample_request_def sample_lecture_def
        sample_parse_def)
  have y': "user_opt_yearId (Some (admin 2)) = module_opt_yearId (Some (module5 2))"
    by (simp add: admin_def module5_def)
  from exceptions_become_500 [where env = broken_store and req = sample_request and res = fresh
      and db = "[]" and e = "JStr ''Connection lost''" and user = "Some (admin 2)"
      and u = "admin 2" and lectureId = "Val 7" and linkId = "Val 9" and l = sample_lecture
      and lecture = "Some sample_lecture" and k = sample_link and module = "Some (module5 2)"
      and data = "[(''title'', JStr ''Anatomy'')]"]
    a p q l r t
  have 1: "statusCode (catch_block fresh (JStr ''Connection lost'')) = 500
     \<and> get broken_store sample_request fresh [] =
        Inr (catch_block fresh (JStr ''Connection lost''), [])
     \<and> updateLecture broken_store sample_request fresh [] =
        Inr (catch_block fresh (JStr ''Connection lost''), [])
     \<and> deleteLecture broken_store sample_request fresh [] =
        Inr (catch_block fresh (JStr ''Connection lost''), [])
     \<and> getLinks broken_store sample_request fresh [] =
        Inr (catch_block fresh (JStr ''Connection lost''), [])
     \<and> createLink broken_store sample_request fresh [] =
        Inr (catch_block fresh (JStr ''Connection lost''), [])
     \<and> updateLink broken_store sample_request fresh [] =
        Inr (catch_block fresh (JStr ''Connection lost''), [])
     \<and> deleteLink broken_store sample_request fresh [] =
        Inr (catch_block fresh (JStr ''Connection lost''), [])"
    by simp
  from exceptions_become_500 [where env = failing_write and req = sample_request and res = fresh
      and db = "[]" and e = "JStr ''Write failed''" and user = "Some (admin 2)"
      and u = "admin 2" and lectureId = "Val 7" and linkId = "Val 9" and l = sample_lecture
      and lecture = "Some sample_lecture" and k = sample_link and module = "Some (module5 2)"
      and data = "[(''title'', JStr ''Anatomy'')]"]
    a' p' l' m' b' w' r t y'
  have 2: "updateLecture failing_write sample_request fresh [] =
      Inr (catch_block fresh (JStr ''Write failed''), [])"
    by simp
  from a p q l r t w' 1 2 show ?thesis by simp
qed

section \<open>Successful update\<close>



section \<open>Rejections do not write\<close>

text \<open>A mutating handler that changes the store has passed every check and answers with success.\<close>

lemma updateLecture_write:
  assumes "updateLecture env req res db = Inr (r, db')" and "db' \<noteq> db"
  shows "(\<exists>data. subjectLecture_update_safeParse env (body req) = Success data)
       \<and> statusCode r = 200"
  using assms
  by (auto simp add: updateLecture_def updateLecture_try_def andThen_def try_catch_def send_simps
      split: sum.splits option.splits if_splits SafeParseReturn.splits prod.splits)

lemma deleteLecture_write:
  assumes "deleteLecture env req res db = Inr (r, db')" and "db' \<noteq> db"
  shows "statusCode r = 200"
  using assms
  by (auto simp add: deleteLecture_def deleteLecture_try_def andThen_def try_catch_def send_simps
      split: sum.splits option.splits if_splits prod.splits)

lemma createLink_write:
  assumes "createLink env req res db = Inr (r, db')" and "db' \<noteq> db"
  shows "(\<exists>data. linkSchema_create_safeParse env (body req) = Success data)
       \<and> statusCode r = 201"
  using assms
  by (auto simp add: createLink_def createLink_try_def andThen_def try_catch_def send_simps
      split: sum.splits option.splits if_splits SafeParseReturn.splits prod.splits)

lemma updateLink_write:
  assumes "updateLink env req res db = Inr (r, db')" and "db' \<noteq> db"
  shows "(\<exists>data. linkSchema_update_safeParse env (body req) = Success data)
       \<and> statusCode r = 200"
  using assms
  by (auto simp add: updateLink_def updateLink_try_def andThen_def try_catch_def send_simps
      split: sum.splits option.splits if_splits SafeParseReturn.splits prod.splits)

lemma deleteLink_write:
  assumes "deleteLink env req res db = Inr (r, db')" and "db' \<noteq> db"
  shows "statusCode r = 200"
  using assms
  by (auto simp add: deleteLink_def deleteLink_try_def andThen_def try_catch_def send_simps
      split: sum.splits option.splits if_splits prod.splits)

text \<open>
  C10. If \<open>updateLecture\<close>, \<open>deleteLecture\<close>, \<open>createLink\<close>, \<open>updateLink\<close> or
  \<open>deleteLink\<close> answers with an \<open>unauthorized\<close>, \<open>notFound\<close> or \<open>badRequest\<close>
  response, or with the \<open>validationErrors\<close> response for a body its schema rejects, then
  the store it returns is the store it was given: no create, update or delete was applied.
\<close>

theorem rejections_leave_store_unchanged:
  "(updateLecture env req res db = Inr (r, db')
      \<and> (r = unauthorized res m \<or> r = notFound res m \<or> r = badRequest res m
          \<or> subjectLecture_update_safeParse env (body req) = Failure err
            \<and> r = validationErrors env res (extractErrors env (Failure err)))
      \<longrightarrow> db' = db)
   \<and> (deleteLecture env req res db = Inr (r, db')
      \<and> (r = unauthorized res m \<or> r = notFound res m \<or> r = badRequest res m)
      \<longrightarrow> db' = db)
   \<and> (createLink env req res db = Inr (r, db')
      \<and> (r = unauthorized res m \<or> r = notFound res m \<or> r = badRequest res m
          \<or> linkSchema_create_safeParse env (body req) = Failure err
            \<and> r = validationErrors env res (extractErrors env (Failure err)))
      \<longrightarrow> db' = db)
   \<and> (updateLink env req res db = Inr (r, db')
      \<and> (r = unauthorized res m \<or> r = notFound res m \<or> r = badRequest res m
          \<or> linkSchema_update_safeParse env (body req) = Failure err
            \<and> r = validationErrors env res (extractErrors env (Failure err)))
      \<longrightarrow> db' = db)
   \<and> (deleteLink env req res db = Inr (r, db')
      \<and> (r = unauthorized res m \<or> r = notFound res m \<or> r = badRequest res m)
      \<longrightarrow> db' = db)"
proof (intro conjI impI)
  assume a: "updateLecture env req res db = Inr (r, db')
      \<and> (r = unauthorized res m \<or> r = notFound res m \<or> r = badRequest res m
          \<or> subjectLecture_update_safeParse env (body req) = Failure err
            \<and> r = validationErrors env res (extractErrors env (Failure err)))"
  show "db' = db"
  proof (rule ccontr)
    assume "db' \<noteq> db"
    with a updateLecture_write [of env req res db r db'] rejection_status [of r res m]
    show False by auto
  qed
next
  assume a: "deleteLecture env req res db = Inr (r, db')
      \<and> (r = unauthorized res m \<or> r = notFound res m \<or> r = badRequest res m)"
  show "db' = db"
  proof (rule ccontr)
    assume "db' \<noteq> db"
    with a deleteLecture_write [of env req res db r db'] rejection_status [of r res m]
    show False by auto
  qed
next
  assume a: "createLink env req res db = Inr (r, db')
      \<and> (r = unauthorized res m \<or> r = notFound res m \<or> r = badRequest res m
          \<or> linkSchema_create_safeParse env (body req) = Failure err
            \<and> r = validationErrors env res (extractErrors env (Failure err)))"
  show "db' = db"
  proof (rule ccontr)
    assume "db' \<noteq> db"
    with a createLink_write [of env req res db r db'] rejection_status [of r res m]
    show False by auto
  qed
next
  assume a: "updateLink env req res db = Inr (r, db')
      \<and> (r = unauthorized res m \<or> r = notFound res m \<or> r = badRequest res m
          \<or> linkSchema_update_safeParse env (body req) = Failure err
            \<and> r = validationErrors env res (extractErrors env (Failure err)))"
  show "db' = db"
  proof (rule ccontr)
    assume "db' \<noteq> db"
    with a updateLink_write [of env req res db r db'] rejection_status [of r res m]
    show False by auto
  qed
next
  assume a: "deleteLink env req res db = Inr (r, db')
      \<and> (r = unauthorized res m \<or> r = notFound res m \<or> r = badRequest res m)"
  show "db' = db"
  proof (rule ccontr)
    assume "db' \<noteq> db"
    with a deleteLink_write [of env req res db r db'] rejection_status [of r res m]
    show False by auto
  qed
qed

theorem rejections_leave_store_unchanged_witness:
  "updateLecture (sample_env (Some (student 1)) (Some (module5 2))) sample_request fresh journal =
     Inr (unauthorized fresh (Some ''Unauthorized cannot update a lecture.''), journal)
   \<and> deleteLecture (sample_env (Some (admin 2)) (Some (module5 2)))
        (sample_request\<lparr>meta := [(''lectureId'', 8)]\<rparr>) fresh journal =
     Inr (notFound fresh (Some ''Lecture doesn't exist.''), journal)
   \<and> linkSchema_create_safeParse (sample_env (Some (admin 2)) (Some (module5 2)))
        (body (sample_request\<lparr>body := JNull\<rparr>)) = Failure (JStr ''Expected object'')
   \<and> createLink (sample_env (Some (admin 2)) (Some (module5 2)))
        (sample_request\<lparr>body := JNull\<rparr>) fresh journal =
     Inr (validationErrors (sample_env (Some (admin 2)) (Some (module5 2))) fresh
            (extractErrors (sample_env (Some (admin 2)) (Some (module5 2)))
               (Failure (JStr ''Expected object''))), journal)
   \<and> updateLink (sample_env (Some (admin 2)) (Some (module5 2)))
        (sample_request\<lparr>meta := [(''lectureId'', 7)]\<rparr>) fresh journal =
     Inr (badRequest fresh (Some ''Invalid linkId''), journal)
   \<and> deleteLink (sample_env (Some (student 1)) (Some (module5 2))) sample_request fresh journal =
     Inr (unauthorized fresh (Some ''Unauthorized cannot delete a link.''), journal)"
proof -
  let ?student = "sample_env (Some (student 1)) (Some (module5 2))"
  let ?admin = "sample_env (Some (admin 2)) (Some (module5 2))"
  have a: "updateLecture ?student sample_request fresh journal =
      Inr (unauthorized fresh (Some ''Unauthorized cannot update a lecture.''), journal)"
    by (simp add: updateLecture_def updateLecture_try_def sample_env_def student_def)
  have b: "deleteLecture ?admin (sample_request\<lparr>meta := [(''lectureId'', 8)]\<rparr>) fresh journal =
      Inr (notFound fresh (Some ''Lecture doesn't exist.''), journal)"
    by (simp add: deleteLecture_def deleteLecture_try_def sample_env_def admin_def
        sample_request_def)
  have c: "linkSchema_create_safeParse ?admin (body (sample_request\<lparr>body := JNull\<rparr>)) =
      Failure (JStr ''Expected object'')"
    by (simp add: sample_env_def sample_parse_def)
  have d: "createLink ?admin (sample_request\<lparr>body := JNull\<rparr>) fresh journal =
      Inr (validationErrors ?admin fresh
             (extractErrors ?admin (Failure (JStr ''Expected object''))), journal)"
    by (simp add: createLink_def createLink_try_def sample_env_def admin_def module5_def
        sample_request_def sample_lecture_def sample_parse_def)
  have e: "updateLink ?admin (sample_request\<lparr>meta := [(''lectureId'', 7)]\<rparr>) fresh journal =
      Inr (badRequest fresh (Some ''Invalid linkId''), journal)"
    by (simp add: updateLink_def updateLink_try_def sample_env_def admin_def sample_request_def)
  have f: "deleteLink ?student sample_request fresh journal =
      Inr (unauthorized fresh (Some ''Unauthorized cannot delete a link.''), journal)"
    by (simp add: deleteLink_def deleteLink_try_def sample_env_def student_def)
  from a rejections_leave_store_unchanged [where env = ?student and req = sample_request
      and res = fresh and db = journal and db' = journal
      and r = "unauthorized fresh (Some ''Unauthorized cannot update a lecture.'')"
      and m = "Some ''Unauthorized cannot update a lecture.''"]
  have 1: "journal = journal" by blast
  from b rejections_leave_store_unchanged [where env = ?admin
      and req = "sample_request\<lparr>meta := [(''lectureId'', 8)]\<rparr>"
      and res = fresh and db = journal and db' = journal
      and r = "notFound fresh (Some ''Lecture doesn't exist.'')"
      and m = "Some ''Lecture doesn't exist.''"]
  have 2: "journal = journal" by blast
  from c d rejections_leave_store_unchanged [where env = ?admin
      and req = "sample_request\<lparr>body := JNull\<rparr>"
      and res = fresh and db = journal and db' = journal
      and r = "validationErrors ?admin fresh
                 (extractErrors ?admin (Failure (JStr ''Expected object'')))"
      and err = "JStr ''Expected object''"]
  have 3: "journal = journal" by blast
  from e rejections_leave_store_unchanged [where env = ?admin
      and req = "sample_request\<lparr>meta := [(''lectureId'', 7)]\<rparr>"
      and res = fresh and db = journal and db' = journal
      and r = "badRequest fresh (Some ''Invalid linkId'')"
      and m = "Some ''Invalid linkId''"]
  have 4: "journal = journal" by blast
  from f rejections_leave_store_unchanged [where env = ?student and req = sample_request
      and res = fresh and db = journal and db' = journal
      and r = "unauthorized fresh (Some ''Unauthorized cannot delete a link.'')"
      and m = "Some ''Unauthorized cannot delete a link.''"]
  have 5: "journal = journal" by blast
  from a b c d e f 1 2 3 4 5 show ?thesis by blast
qed

end
